theory Spec2Isabelle
  imports Main "HOL-Library.AList" "HOL-Library.Word"
begin

section \<open>Runtime values\<close>

text \<open>
  The validator receives \<^verbatim>\<open>unknown\<close> data. The embedding covers the two sentinels,
  booleans, numbers, strings, \<^verbatim>\<open>Date\<close> objects, arrays, ordinary objects, and the three
  built-in prototype objects that a property read can return.

  A finite number is an integer from \<open>- 2^53\<close> to \<open>2^53 - 1\<close> (a 54-bit signed word):
  every such integer is a JavaScript number, and \<^verbatim>\<open>JSON.stringify\<close> writes it in
  decimal. A \<^verbatim>\<open>Date\<close> is represented by its ISO rendering, \<open>None\<close> standing for an
  invalid date (one whose \<^verbatim>\<open>getTime()\<close> is NaN). An ordinary object \<open>JObj p kvs\<close> has
  the prototype \<open>p\<close> (an object or \<^verbatim>\<open>null\<close>) and the own properties \<open>kvs\<close>, all
  enumerable data properties, in enumeration order; an object literal and an object read
  by \<^verbatim>\<open>JSON.parse\<close> have the prototype \<open>ObjectPrototype\<close>. An array has the prototype
  \<open>ArrayPrototype\<close>, a date \<open>DatePrototype\<close>.

  Functions are not values of the embedding (a property read that finds a built-in
  method is the result \<open>Function\<close> below); symbols, bigints, fractions, infinities,
  accessors defined by user code and frozen objects are outside it.
\<close>

datatype number = NaN | Fin "54 word"

datatype jsval =
    JUndefined
  | JNull
  | JBool bool
  | JNum number
  | JStr string
  | JDate "string option"
  | JArr "jsval list"
  | JObj jsval "(string \<times> jsval) list"
  | ObjectPrototype
  | ArrayPrototype
  | DatePrototype

text \<open>The \<^verbatim>\<open>typeof\<close> operator.\<close>

fun typeof :: "jsval \<Rightarrow> string" where
  "typeof JUndefined = ''undefined''"
| "typeof JNull = ''object''"
| "typeof (JBool b) = ''boolean''"
| "typeof (JNum n) = ''number''"
| "typeof (JStr s) = ''string''"
| "typeof (JDate d) = ''object''"
| "typeof (JArr xs) = ''object''"
| "typeof (JObj p kvs) = ''object''"
| "typeof ObjectPrototype = ''object''"
| "typeof ArrayPrototype = ''object''"
| "typeof DatePrototype = ''object''"

subsection \<open>Decimal numerals\<close>

definition digit_char :: "nat \<Rightarrow> char" where
  "digit_char d = ''0123456789abcdef'' ! d"

fun show_nat :: "nat \<Rightarrow> string" where
  "show_nat n = (if n < 10 then [digit_char n] else show_nat (n div 10) @ [digit_char (n mod 10)])"

declare show_nat.simps [simp del]

definition show_int :: "int \<Rightarrow> string" where
  "show_int i = (if i < 0 then CHR ''-'' # show_nat (nat (- i)) else show_nat (nat i))"

subsection \<open>Property reads\<close>

text \<open>
  The string-keyed members of the built-in prototypes (ECMAScript 2023 with its
  Annex B). All of them are methods, but \<^verbatim>\<open>length\<close> of \<^verbatim>\<open>Array.prototype\<close>, which is
  \<^verbatim>\<open>0\<close>, and \<^verbatim>\<open>__proto__\<close> of \<^verbatim>\<open>Object.prototype\<close>, which is an accessor.
\<close>

definition Object_prototype_methods :: "string list" where
  "Object_prototype_methods =
     [''constructor'', ''__defineGetter__'', ''__defineSetter__'', ''hasOwnProperty'',
      ''__lookupGetter__'', ''__lookupSetter__'', ''isPrototypeOf'', ''propertyIsEnumerable'',
      ''toString'', ''valueOf'', ''toLocaleString'']"

definition Array_prototype_methods :: "string list" where
  "Array_prototype_methods =
     [''constructor'', ''at'', ''concat'', ''copyWithin'', ''fill'', ''find'', ''findIndex'',
      ''findLast'', ''findLastIndex'', ''lastIndexOf'', ''pop'', ''push'', ''reverse'', ''shift'',
      ''unshift'', ''slice'', ''sort'', ''splice'', ''includes'', ''indexOf'', ''join'', ''keys'',
      ''entries'', ''values'', ''forEach'', ''filter'', ''flat'', ''flatMap'', ''map'', ''every'',
      ''some'', ''reduce'', ''reduceRight'', ''toLocaleString'', ''toString'', ''toReversed'',
      ''toSorted'', ''toSpliced'', ''with'']"

definition Date_prototype_methods :: "string list" where
  "Date_prototype_methods =
     [''constructor'', ''toString'', ''toDateString'', ''toTimeString'', ''toISOString'',
      ''toUTCString'', ''toGMTString'', ''getDate'', ''setDate'', ''getDay'', ''getFullYear'',
      ''setFullYear'', ''getHours'', ''setHours'', ''getMilliseconds'', ''setMilliseconds'',
      ''getMinutes'', ''setMinutes'', ''getMonth'', ''setMonth'', ''getSeconds'', ''setSeconds'',
      ''getTime'', ''setTime'', ''getTimezoneOffset'', ''getUTCDate'', ''setUTCDate'',
      ''getUTCDay'', ''getUTCFullYear'', ''setUTCFullYear'', ''getUTCHours'', ''setUTCHours'',
      ''getUTCMilliseconds'', ''setUTCMilliseconds'', ''getUTCMinutes'', ''setUTCMinutes'',
      ''getUTCMonth'', ''setUTCMonth'', ''getUTCSeconds'', ''setUTCSeconds'', ''valueOf'',
      ''getYear'', ''setYear'', ''toJSON'', ''toLocaleString'', ''toLocaleDateString'',
      ''toLocaleTimeString'']"

text \<open>The prototype of an object (\<^verbatim>\<open>null\<close> at the end of the chain).\<close>

fun prototype_of :: "jsval \<Rightarrow> jsval" where
  "prototype_of (JObj p kvs) = p"
| "prototype_of (JArr xs) = ArrayPrototype"
| "prototype_of (JDate d) = DatePrototype"
| "prototype_of ArrayPrototype = ObjectPrototype"
| "prototype_of DatePrototype = ObjectPrototype"
| "prototype_of _ = JNull"

text \<open>What a property read returns: a value of the embedding, or a built-in method.\<close>

datatype property = Value jsval | Function

text \<open>
  The read reaches a built-in prototype. The getter of \<^verbatim>\<open>__proto__\<close> returns the
  prototype of the object the read started from.
\<close>

definition object_prototype_get :: "jsval \<Rightarrow> string \<Rightarrow> property" where
  "object_prototype_get receiver key =
     (if key = ''__proto__'' then Value (prototype_of receiver)
      else if key \<in> set Object_prototype_methods then Function
      else Value JUndefined)"

definition array_prototype_get :: "jsval \<Rightarrow> string \<Rightarrow> property" where
  "array_prototype_get receiver key =
     (if key = ''length'' then Value (JNum (Fin 0))
      else if key \<in> set Array_prototype_methods then Function
      else object_prototype_get receiver key)"

definition date_prototype_get :: "jsval \<Rightarrow> string \<Rightarrow> property" where
  "date_prototype_get receiver key =
     (if key \<in> set Date_prototype_methods then Function
      else object_prototype_get receiver key)"

text \<open>
  \<open>get_from receiver obj key\<close> looks \<open>key\<close> up in \<open>obj\<close> and then along its prototype
  chain: an own property of an ordinary object, \<^verbatim>\<open>length\<close> or an element of an array,
  a member of a built-in prototype. \<open>get_property obj key\<close> is the read \<^verbatim>\<open>obj[key]\<close>.
\<close>

fun get_from :: "jsval \<Rightarrow> jsval \<Rightarrow> string \<Rightarrow> property" where
  "get_from receiver (JObj p kvs) key =
     (case map_of kvs key of Some v \<Rightarrow> Value v | None \<Rightarrow> get_from receiver p key)"
| "get_from receiver (JArr xs) key =
     (if key = ''length'' then Value (JNum (Fin (of_nat (length xs))))
      else case List.find (\<lambda>i. show_nat i = key) [0..<length xs] of
             Some i \<Rightarrow> Value (xs ! i)
           | None \<Rightarrow> array_prototype_get receiver key)"
| "get_from receiver (JDate d) key = date_prototype_get receiver key"
| "get_from receiver ArrayPrototype key = array_prototype_get receiver key"
| "get_from receiver DatePrototype key = date_prototype_get receiver key"
| "get_from receiver ObjectPrototype key = object_prototype_get receiver key"
| "get_from receiver _ key = Value JUndefined"

definition get_property :: "jsval \<Rightarrow> string \<Rightarrow> property" where
  "get_property obj key = get_from obj obj key"

subsection \<open>Rendering: paths, \<^verbatim>\<open>JSON.stringify\<close>\<close>

fun join :: "string \<Rightarrow> string list \<Rightarrow> string" where
  "join sep [] = []"
| "join sep [x] = x"
| "join sep (x # y # ys) = x @ sep @ join sep (y # ys)"

text \<open>A string between double quotes, with the escapes of \<^verbatim>\<open>JSON.stringify\<close>.\<close>

definition escape_char :: "char \<Rightarrow> string" where
  "escape_char c =
     (if c = CHR 0x22 then [CHR 0x5C, CHR 0x22]
      else if c = CHR 0x5C then [CHR 0x5C, CHR 0x5C]
      else if c = CHR 0x08 then [CHR 0x5C, CHR ''b'']
      else if c = CHR 0x0C then [CHR 0x5C, CHR ''f'']
      else if c = CHR 0x0A then [CHR 0x5C, CHR ''n'']
      else if c = CHR 0x0D then [CHR 0x5C, CHR ''r'']
      else if c = CHR 0x09 then [CHR 0x5C, CHR ''t'']
      else if (of_char c :: nat) < 32
        then [CHR 0x5C, CHR ''u'', CHR ''0'', CHR ''0'',
              digit_char (of_char c div 16), digit_char (of_char c mod 16)]
      else [c])"

definition quote :: "string \<Rightarrow> string" where
  "quote s = CHR 0x22 # concat (map escape_char s) @ [CHR 0x22]"

text \<open>
  \<^verbatim>\<open>JSON.stringify(value)\<close> calls the \<^verbatim>\<open>toJSON\<close> method of every object it writes
  that has one. In the embedding the only such method is \<^verbatim>\<open>Date.prototype.toJSON\<close>,
  which throws a \<^verbatim>\<open>TypeError\<close> when the object is not a date. \<open>stringify_throws\<close>
  says when that happens, at the value or inside it.
\<close>

definition calls_foreign_toJSON :: "jsval \<Rightarrow> bool" where
  "calls_foreign_toJSON v =
     (get_property v ''toJSON'' = Function \<and> (case v of JDate d \<Rightarrow> False | _ \<Rightarrow> True))"

fun stringify_throws :: "jsval \<Rightarrow> bool" where
  "stringify_throws (JArr xs) = list_ex stringify_throws xs"
| "stringify_throws (JObj p kvs) =
     (calls_foreign_toJSON (JObj p kvs) \<or> list_ex (\<lambda>kv. stringify_throws (snd kv)) kvs)"
| "stringify_throws DatePrototype = True"
| "stringify_throws _ = False"

text \<open>
  The text \<^verbatim>\<open>JSON.stringify(value)\<close> returns when it does not throw; \<open>None\<close> is the
  result \<^verbatim>\<open>undefined\<close>. Inside an array \<^verbatim>\<open>undefined\<close> is written \<^verbatim>\<open>null\<close>; inside an
  object the property is left out. Only own properties are written. (Where
  \<open>stringify_throws\<close> holds there is no text, and the value given here is not used.)
\<close>

fun JSON_stringify :: "jsval \<Rightarrow> string option" where
  "JSON_stringify JUndefined = None"
| "JSON_stringify JNull = Some ''null''"
| "JSON_stringify (JBool b) = Some (if b then ''true'' else ''false'')"
| "JSON_stringify (JNum NaN) = Some ''null''"
| "JSON_stringify (JNum (Fin i)) = Some (show_int (sint i))"
| "JSON_stringify (JStr s) = Some (quote s)"
| "JSON_stringify (JDate None) = Some ''null''"
| "JSON_stringify (JDate (Some t)) = Some (quote t)"
| "JSON_stringify (JArr xs) =
     Some (''['' @ join '','' (map (\<lambda>x. case JSON_stringify x of None \<Rightarrow> ''null'' | Some s \<Rightarrow> s) xs) @ '']'')"
| "JSON_stringify (JObj p kvs) =
     Some (''{'' @ join '','' (concat (map (\<lambda>kv. case JSON_stringify (snd kv) of
                                                  None \<Rightarrow> []
                                                | Some s \<Rightarrow> [quote (fst kv) @ '':'' @ s]) kvs)) @ ''}'')"
| "JSON_stringify ObjectPrototype = Some ''{}''"
| "JSON_stringify ArrayPrototype = Some ''[]''"
| "JSON_stringify DatePrototype = None"

text \<open>A value interpolated into a template literal.\<close>

definition template :: "string option \<Rightarrow> string" where
  "template r = (case r of None \<Rightarrow> ''undefined'' | Some s \<Rightarrow> s)"

section \<open>Issues and errors\<close>

datatype seg = Key string | Idx nat

record ValidationIssue =
  path :: "seg list"
  message :: string
  expected :: string
  received :: string

text \<open>
  What a \<^verbatim>\<open>throw\<close> carries: a \<^verbatim>\<open>ValidationError\<close> with its issues, or any other
  exception (identified by its message, or by its class for an exception of the
  language).
\<close>

datatype thrown = ValidationError "ValidationIssue list" | OtherError string

type_synonym 'a result = "thrown + 'a"

definition TypeError :: thrown where
  "TypeError = OtherError ''TypeError''"

fun show_seg :: "seg \<Rightarrow> string" where
  "show_seg (Key k) = k"
| "show_seg (Idx i) = show_nat i"

definition path_join :: "seg list \<Rightarrow> string" where
  "path_join p = join ''.'' (map show_seg p)"

text \<open>
  \<^verbatim>\<open>makeError\<close> builds the message with \<^verbatim>\<open>JSON.stringify(value)\<close>; when that call
  throws, its exception is what leaves \<^verbatim>\<open>throw makeError(...)\<close>.
\<close>

definition makeError :: "seg list \<Rightarrow> string \<Rightarrow> string \<Rightarrow> jsval \<Rightarrow> thrown" where
  "makeError p ex rcv v =
     (if stringify_throws v then TypeError
      else ValidationError
       [\<lparr>path = p,
         message = ''Invalid value at '' @ [CHR 0x22] @ path_join p @ [CHR 0x22] @ '': expected '' @ ex
                   @ '', received '' @ rcv @ ''. Value: '' @ template (JSON_stringify v),
         expected = ex,
         received = rcv\<rparr>])"

section \<open>Schemas\<close>

text \<open>
  A refinement is a predicate with its message. The predicate is user code: it returns
  a boolean or throws.
\<close>

type_synonym refinement = "(jsval \<Rightarrow> bool result) \<times> string"

text \<open>The values of \<^verbatim>\<open>VLiteral\<close>: \<^verbatim>\<open>string | number | boolean\<close>.\<close>

datatype literal = LStr string | LNum number | LBool bool

fun literal_value :: "literal \<Rightarrow> jsval" where
  "literal_value (LStr s) = JStr s"
| "literal_value (LNum n) = JNum n"
| "literal_value (LBool b) = JBool b"

text \<open>
  Strict equality \<^verbatim>\<open>data === val\<close> against a literal: same type and same value, and
  NaN equal to nothing.
\<close>

fun strict_equal :: "jsval \<Rightarrow> literal \<Rightarrow> bool" where
  "strict_equal (JStr s) (LStr t) = (s = t)"
| "strict_equal (JNum (Fin a)) (LNum (Fin b)) = (a = b)"
| "strict_equal (JBool a) (LBool b) = (a = b)"
| "strict_equal _ _ = False"

text \<open>
  One constructor per subclass of \<^verbatim>\<open>VType\<close>; each instance carries the fields of its
  class and the \<^verbatim>\<open>refinements\<close> list of the base class. A shape is the list of its
  keys with their schemas, in the order \<^verbatim>\<open>for (const key in this.shape)\<close> visits them.
\<close>

datatype schema =
    VString "refinement list"
  | VNumber "refinement list"
  | VBoolean "refinement list"
  | VDate "refinement list"
  | VArray schema "refinement list"
  | VLiteral literal "refinement list"
  | VUnion "schema list" "refinement list"
  | VObject "(string \<times> schema) list" "refinement list"
  | VOptional schema "refinement list"
  | VNullable schema "refinement list"

fun refinements :: "schema \<Rightarrow> refinement list" where
  "refinements (VString rs) = rs"
| "refinements (VNumber rs) = rs"
| "refinements (VBoolean rs) = rs"
| "refinements (VDate rs) = rs"
| "refinements (VArray element rs) = rs"
| "refinements (VLiteral val rs) = rs"
| "refinements (VUnion options rs) = rs"
| "refinements (VObject shape rs) = rs"
| "refinements (VOptional inner rs) = rs"
| "refinements (VNullable inner rs) = rs"

text \<open>\<^verbatim>\<open>refine\<close> pushes onto the list of the schema and returns the schema.\<close>

fun refine :: "schema \<Rightarrow> (jsval \<Rightarrow> bool result) \<Rightarrow> string \<Rightarrow> schema" where
  "refine (VString rs) check msg = VString (rs @ [(check, msg)])"
| "refine (VNumber rs) check msg = VNumber (rs @ [(check, msg)])"
| "refine (VBoolean rs) check msg = VBoolean (rs @ [(check, msg)])"
| "refine (VDate rs) check msg = VDate (rs @ [(check, msg)])"
| "refine (VArray element rs) check msg = VArray element (rs @ [(check, msg)])"
| "refine (VLiteral val rs) check msg = VLiteral val (rs @ [(check, msg)])"
| "refine (VUnion options rs) check msg = VUnion options (rs @ [(check, msg)])"
| "refine (VObject shape rs) check msg = VObject shape (rs @ [(check, msg)])"
| "refine (VOptional inner rs) check msg = VOptional inner (rs @ [(check, msg)])"
| "refine (VNullable inner rs) check msg = VNullable inner (rs @ [(check, msg)])"

definition optional :: "schema \<Rightarrow> schema" where
  "optional s = VOptional s []"

definition nullable :: "schema \<Rightarrow> schema" where
  "nullable s = VNullable s []"

section \<open>Parsing\<close>

text \<open>
  \<^verbatim>\<open>runRefinements\<close>: the \<^verbatim>\<open>for\<close> loop over the refinements, leaving at the first
  predicate that throws or returns false.
\<close>

fun run_checks :: "refinement list \<Rightarrow> jsval \<Rightarrow> seg list \<Rightarrow> unit result" where
  "run_checks [] v pth = Inr ()"
| "run_checks ((check, msg) # rest) v pth =
     (case check v of
        Inl e \<Rightarrow> Inl e
      | Inr ok \<Rightarrow>
          if \<not> ok
          then Inl (ValidationError
                 [\<lparr>path = pth, message = msg, expected = ''refinement to pass'', received = typeof v\<rparr>])
          else run_checks rest v pth)"

definition runRefinements :: "schema \<Rightarrow> jsval \<Rightarrow> seg list \<Rightarrow> unit result" where
  "runRefinements s v pth = run_checks (refinements s) v pth"

text \<open>
  \<^verbatim>\<open>Array.isArray(data)\<close> with the elements \<^verbatim>\<open>data.map\<close> visits:
  \<^verbatim>\<open>Array.prototype\<close> is an array, of length 0.
\<close>

fun array_items :: "jsval \<Rightarrow> jsval list option" where
  "array_items (JArr xs) = Some xs"
| "array_items ArrayPrototype = Some []"
| "array_items _ = None"

text \<open>\<^verbatim>\<open>data instanceof Date\<close>: \<^verbatim>\<open>Date.prototype\<close> is on the prototype chain of \<open>data\<close>.\<close>

fun instanceof_Date :: "jsval \<Rightarrow> bool" where
  "instanceof_Date (JDate d) = True"
| "instanceof_Date (JObj p kvs) = (p = DatePrototype \<or> instanceof_Date p)"
| "instanceof_Date _ = False"

text \<open>
  A schema given a built-in method (a field read found one): every variant rejects it
  in \<^verbatim>\<open>_parse\<close>, with \<^verbatim>\<open>typeof data\<close> being \<^verbatim>\<open>'function'\<close> and
  \<^verbatim>\<open>JSON.stringify(data)\<close> being \<^verbatim>\<open>undefined\<close>, as for the value \<^verbatim>\<open>undefined\<close>; the
  wrappers pass it on to the inner schema and a union collects what its members throw.
  \<open>function_issues s pth\<close> are the issues of the \<^verbatim>\<open>ValidationError\<close> thrown.
\<close>

fun issues :: "thrown \<Rightarrow> ValidationIssue list" where
  "issues (ValidationError iss) = iss"
| "issues (OtherError m) = []"

fun function_issues :: "schema \<Rightarrow> seg list \<Rightarrow> ValidationIssue list" where
  "function_issues (VString rs) pth = issues (makeError pth ''string'' ''function'' JUndefined)"
| "function_issues (VNumber rs) pth = issues (makeError pth ''number'' ''function'' JUndefined)"
| "function_issues (VBoolean rs) pth = issues (makeError pth ''boolean'' ''function'' JUndefined)"
| "function_issues (VDate rs) pth = issues (makeError pth ''Date'' ''function'' JUndefined)"
| "function_issues (VArray element rs) pth = issues (makeError pth ''array'' ''function'' JUndefined)"
| "function_issues (VLiteral val rs) pth =
     issues (makeError pth (''literal '' @ template (JSON_stringify (literal_value val)))
       ''function'' JUndefined)"
| "function_issues (VUnion options rs) pth = concat (map (\<lambda>opt. function_issues opt pth) options)"
| "function_issues (VObject shape rs) pth = issues (makeError pth ''object'' ''function'' JUndefined)"
| "function_issues (VOptional inner rs) pth = function_issues inner pth"
| "function_issues (VNullable inner rs) pth = function_issues inner pth"

text \<open>
  The assignment \<^verbatim>\<open>result[key] = v\<close>. An own property is overwritten. Otherwise the
  key is looked up along the prototype chain: when this finds the accessor
  \<^verbatim>\<open>__proto__\<close> of \<^verbatim>\<open>Object.prototype\<close>, its setter runs, which makes \<open>v\<close> the
  prototype of \<open>result\<close> if \<open>v\<close> is an object or \<^verbatim>\<open>null\<close> and does nothing otherwise;
  in every other case a new own property is added at the end.
\<close>

fun reaches_proto_accessor :: "jsval \<Rightarrow> bool" where
  "reaches_proto_accessor (JObj p kvs) = (map_of kvs ''__proto__'' = None \<and> reaches_proto_accessor p)"
| "reaches_proto_accessor (JArr xs) = True"
| "reaches_proto_accessor (JDate d) = True"
| "reaches_proto_accessor ObjectPrototype = True"
| "reaches_proto_accessor ArrayPrototype = True"
| "reaches_proto_accessor DatePrototype = True"
| "reaches_proto_accessor _ = False"

definition is_object_or_null :: "jsval \<Rightarrow> bool" where
  "is_object_or_null v = (typeof v = ''object'')"

fun assign :: "jsval \<Rightarrow> string \<Rightarrow> jsval \<Rightarrow> jsval" where
  "assign (JObj p kvs) key v =
     (if map_of kvs key = None \<and> key = ''__proto__'' \<and> reaches_proto_accessor p
      then (if is_object_or_null v then JObj v kvs else JObj p kvs)
      else JObj p (AList.update key v kvs))"
| "assign obj key v = obj"

text \<open>
  \<^verbatim>\<open>_parse\<close> of every subclass and \<^verbatim>\<open>_parseWithRefinements\<close> of the base class,
  named \<open>p_parse\<close> and \<open>p_parseWithRefinements\<close> (for "protected"). The
  three loops are functions of their own: \<open>array_map\<close> is \<^verbatim>\<open>data.map\<close> with the
  callback of \<^verbatim>\<open>VArray\<close> (index \<open>i\<close>, leaving at the first throw), \<open>union_loop\<close> the
  \<^verbatim>\<open>for\<close> loop of \<^verbatim>\<open>VUnion\<close> with its \<^verbatim>\<open>errors\<close> array, \<open>object_loop\<close> the
  \<^verbatim>\<open>for\<close> loop of \<^verbatim>\<open>VObject\<close> with its \<^verbatim>\<open>result\<close> object, which starts as \<^verbatim>\<open>{}\<close>.
  In \<^verbatim>\<open>VDate\<close>, \<^verbatim>\<open>data.getTime()\<close> throws a \<^verbatim>\<open>TypeError\<close> on an object that inherits
  from \<^verbatim>\<open>Date.prototype\<close> without being a date.
\<close>

function (sequential) p_parse :: "schema \<Rightarrow> seg list \<Rightarrow> jsval \<Rightarrow> jsval result"
  and p_parseWithRefinements :: "schema \<Rightarrow> seg list \<Rightarrow> jsval \<Rightarrow> jsval result"
  and array_map :: "schema \<Rightarrow> seg list \<Rightarrow> nat \<Rightarrow> jsval list \<Rightarrow> jsval list result"
  and union_loop :: "schema list \<Rightarrow> seg list \<Rightarrow> jsval \<Rightarrow> ValidationIssue list \<Rightarrow> jsval result"
  and object_loop :: "(string \<times> schema) list \<Rightarrow> seg list \<Rightarrow> jsval \<Rightarrow> jsval \<Rightarrow> jsval result"
where
  "p_parse (VString rs) pth data =
     (if typeof data \<noteq> ''string'' then Inl (makeError pth ''string'' (typeof data) data)
      else Inr data)"
| "p_parse (VNumber rs) pth data =
     (if typeof data \<noteq> ''number'' \<or> data = JNum NaN
      then Inl (makeError pth ''number'' (typeof data) data)
      else Inr data)"
| "p_parse (VBoolean rs) pth data =
     (if typeof data \<noteq> ''boolean'' then Inl (makeError pth ''boolean'' (typeof data) data)
      else Inr data)"
| "p_parse (VDate rs) pth data =
     (if \<not> instanceof_Date data then Inl (makeError pth ''Date'' (typeof data) data)
      else case data of
             JDate (Some t) \<Rightarrow> Inr data
           | JDate None \<Rightarrow> Inl (makeError pth ''Date'' (typeof data) data)
           | _ \<Rightarrow> Inl TypeError)"
| "p_parse (VArray element rs) pth data =
     (case array_items data of
        None \<Rightarrow> Inl (makeError pth ''array'' (typeof data) data)
      | Some items \<Rightarrow>
          (case array_map element pth 0 items of Inl e \<Rightarrow> Inl e | Inr vs \<Rightarrow> Inr (JArr vs)))"
| "p_parse (VLiteral val rs) pth data =
     (if \<not> strict_equal data val
      then Inl (makeError pth (''literal '' @ template (JSON_stringify (literal_value val))) (typeof data) data)
      else Inr (literal_value val))"
| "p_parse (VUnion options rs) pth data = union_loop options pth data []"
| "p_parse (VObject shape rs) pth data =
     (if typeof data \<noteq> ''object'' \<or> data = JNull
      then Inl (makeError pth ''object'' (typeof data) data)
      else object_loop shape pth data (JObj ObjectPrototype []))"
| "p_parse (VOptional inner rs) pth data =
     (if data = JUndefined then Inr JUndefined else p_parse inner pth data)"
| "p_parse (VNullable inner rs) pth data =
     (if data = JNull then Inr JNull else p_parse inner pth data)"
| "p_parseWithRefinements s pth data =
     (case p_parse s pth data of
        Inl e \<Rightarrow> Inl e
      | Inr v \<Rightarrow> (case runRefinements s v pth of Inl e \<Rightarrow> Inl e | Inr u \<Rightarrow> Inr v))"
| "array_map element pth i [] = Inr []"
| "array_map element pth i (item # items) =
     (case p_parse element (pth @ [Idx i]) item of
        Inl e \<Rightarrow> Inl e
      | Inr v \<Rightarrow> (case array_map element pth (Suc i) items of Inl e \<Rightarrow> Inl e | Inr vs \<Rightarrow> Inr (v # vs)))"
| "union_loop [] pth data errors = Inl (ValidationError errors)"
| "union_loop (opt # options) pth data errors =
     (case p_parse opt pth data of
        Inr v \<Rightarrow> Inr v
      | Inl (ValidationError iss) \<Rightarrow> union_loop options pth data (errors @ iss)
      | Inl err \<Rightarrow> Inl err)"
| "object_loop [] pth obj res = Inr res"
| "object_loop ((key, sch) # rest) pth obj res =
     (case get_property obj key of
        Function \<Rightarrow> Inl (ValidationError (function_issues sch (pth @ [Key key])))
      | Value val \<Rightarrow>
          (case p_parseWithRefinements sch (pth @ [Key key]) val of
             Inl e \<Rightarrow> Inl e
           | Inr v \<Rightarrow> object_loop rest pth obj (assign res key v)))"
  by pat_completeness auto
termination
  by (relation "measures
        [\<lambda>x. case x of
                Inl (Inl (s, _)) \<Rightarrow> size s
              | Inl (Inr (s, _)) \<Rightarrow> size s
              | Inr (Inl (element, _)) \<Rightarrow> size element
              | Inr (Inr (Inl (options, _))) \<Rightarrow> size_list size options
              | Inr (Inr (Inr (shape, _))) \<Rightarrow> size_list (size_prod (\<lambda>_. 0) size) shape,
         \<lambda>x. case x of
                Inl (Inl _) \<Rightarrow> 0
              | Inl (Inr _) \<Rightarrow> 1
              | Inr (Inl (_, _, _, items)) \<Rightarrow> Suc (length items)
              | Inr (Inr _) \<Rightarrow> 0]")
     auto

declare p_parseWithRefinements.simps [simp del]

definition parse :: "schema \<Rightarrow> jsval \<Rightarrow> jsval result" where
  "parse s data = p_parseWithRefinements s [] data"

text \<open>
  \<^verbatim>\<open>safeParse\<close>: the \<^verbatim>\<open>try\<close> block is \<open>safeParse_try\<close>, the \<^verbatim>\<open>catch\<close> clause
  turns a \<^verbatim>\<open>ValidationError\<close> into the failure branch and throws anything else again.
\<close>

datatype ParseResult = Success jsval | Failure thrown

definition safeParse_try :: "schema \<Rightarrow> jsval \<Rightarrow> ParseResult result" where
  "safeParse_try s data =
     (case p_parse s [] data of
        Inl e \<Rightarrow> Inl e
      | Inr parsed \<Rightarrow>
          (case runRefinements s parsed [] of Inl e \<Rightarrow> Inl e | Inr u \<Rightarrow> Inr (Success parsed)))"

definition safeParse :: "schema \<Rightarrow> jsval \<Rightarrow> ParseResult result" where
  "safeParse s data =
     (case safeParse_try s data of
        Inr r \<Rightarrow> Inr r
      | Inl (ValidationError iss) \<Rightarrow> Inr (Failure (ValidationError iss))
      | Inl err \<Rightarrow> Inl err)"

section \<open>The \<^verbatim>\<open>validator\<close> namespace\<close>

text \<open>
  The exported object, as the list of its members in declaration order. A member is a
  factory (by the kind of its argument), the type-level \<^verbatim>\<open>infer\<close>, or the error
  class.
\<close>

datatype member =
    Factory0 schema
  | FactorySchema "schema \<Rightarrow> schema"
  | FactoryLiteral "literal \<Rightarrow> schema"
  | FactorySchemas "schema list \<Rightarrow> schema"
  | FactoryShape "(string \<times> schema) list \<Rightarrow> schema"
  | Infer
  | ErrorClass

definition validator :: "(string \<times> member) list" where
  "validator =
     [(''string'', Factory0 (VString [])),
      (''number'', Factory0 (VNumber [])),
      (''boolean'', Factory0 (VBoolean [])),
      (''date'', Factory0 (VDate [])),
      (''array'', FactorySchema (\<lambda>sch. VArray sch [])),
      (''literal'', FactoryLiteral (\<lambda>val. VLiteral val [])),
      (''union'', FactorySchemas (\<lambda>schemas. VUnion schemas [])),
      (''object'', FactoryShape (\<lambda>shape. VObject shape [])),
      (''infer'', Infer),
      (''ValidationError'', ErrorClass)]"

section \<open>Auxiliary definitions for the properties\<close>

text \<open>Two user predicates: one that always answers false, one that always throws.\<close>

definition always_false :: "jsval \<Rightarrow> bool result" where
  "always_false v = Inr False"

definition always_throws :: "jsval \<Rightarrow> bool result" where
  "always_throws v = Inl (OtherError ''boom'')"

text \<open>\<^verbatim>\<open>validator.string().refine(() => false, "A")\<close>\<close>

definition refined_string :: schema where
  "refined_string = refine (VString []) always_false ''A''"

text \<open>\<^verbatim>\<open>validator.number().refine(() => false, "A")\<close>\<close>

definition refined_number :: schema where
  "refined_number = refine (VNumber []) always_false ''A''"

text \<open>\<^verbatim>\<open>validator.union([validator.literal("a"), validator.literal("b")])\<close>\<close>

definition literal_a_or_b :: schema where
  "literal_a_or_b = VUnion [VLiteral (LStr ''a'') [], VLiteral (LStr ''b'') []] []"

text \<open>The issue \<^verbatim>\<open>literal(s)\<close> raises at the root for a value that is not \<open>s\<close>.\<close>

definition literal_issue :: "string \<Rightarrow> jsval \<Rightarrow> ValidationIssue list" where
  "literal_issue s data = issues (makeError [] (''literal '' @ quote s) (typeof data) data)"

text \<open>\<^verbatim>\<open>validator.object({['__proto__']: validator.number()})\<close>\<close>

definition proto_shape :: schema where
  "proto_shape = VObject [(''__proto__'', VNumber [])] []"



text \<open>
  What \<^verbatim>\<open>VObject._parse\<close> gets for a field: the read \<^verbatim>\<open>obj[key]\<close> and then the
  pipeline of the field schema on what was read.
\<close>

definition field_pipeline :: "schema \<Rightarrow> seg list \<Rightarrow> property \<Rightarrow> jsval result" where
  "field_pipeline sch pth prop =
     (case prop of
        Function \<Rightarrow> Inl (ValidationError (function_issues sch pth))
      | Value val \<Rightarrow> p_parseWithRefinements sch pth val)"



text \<open>
  The members of a union, in order: when the union returns \<open>w\<close> through a member
  (the members before it having rejected the input), no member before that one accepts
  \<open>w\<close> with another result: it rejects \<open>w\<close> with a \<^verbatim>\<open>ValidationError\<close>, or returns
  it as it is.
\<close>

definition first_match_stable :: "schema list \<Rightarrow> bool" where
  "first_match_stable options =
     (\<forall>i<length options. \<forall>pth v w.
        (\<forall>j<i. \<exists>iss. p_parse (options ! j) pth v = Inl (ValidationError iss))
        \<and> p_parse (options ! i) pth v = Inr w \<longrightarrow>
          (\<forall>j<i. (\<exists>iss. p_parse (options ! j) pth w = Inl (ValidationError iss))
                  \<or> p_parse (options ! j) pth w = Inr w))"

text \<open>Schemas all of whose unions are such.\<close>

fun unions_stable :: "schema \<Rightarrow> bool" where
  "unions_stable (VString rs) = True"
| "unions_stable (VNumber rs) = True"
| "unions_stable (VBoolean rs) = True"
| "unions_stable (VDate rs) = True"
| "unions_stable (VArray element rs) = unions_stable element"
| "unions_stable (VLiteral val rs) = True"
| "unions_stable (VUnion options rs) = (list_all unions_stable options \<and> first_match_stable options)"
| "unions_stable (VObject shape rs) = list_all (\<lambda>field. unions_stable (snd field)) shape"
| "unions_stable (VOptional inner rs) = unions_stable inner"
| "unions_stable (VNullable inner rs) = unions_stable inner"

text \<open>
  Schemas that return their input when they succeed: strings, numbers, booleans, dates
  and literals, and the wrappers and unions of these.
\<close>

fun returns_input :: "schema \<Rightarrow> bool" where
  "returns_input (VString rs) = True"
| "returns_input (VNumber rs) = True"
| "returns_input (VBoolean rs) = True"
| "returns_input (VDate rs) = True"
| "returns_input (VArray element rs) = False"
| "returns_input (VLiteral val rs) = True"
| "returns_input (VUnion options rs) = list_all returns_input options"
| "returns_input (VObject shape rs) = False"
| "returns_input (VOptional inner rs) = returns_input inner"
| "returns_input (VNullable inner rs) = returns_input inner"



section \<open>Properties\<close>

subsection \<open>\<^verbatim>\<open>refine\<close> and the structural parse\<close>

lemma refinements_refine: "refinements (refine s check msg) = refinements s @ [(check, msg)]"
  by (cases s) simp_all

lemma p_parse_refine: "p_parse (refine s check msg) pth data = p_parse s pth data"
  by (cases s) simp_all

subsection \<open>Wrappers and the refinements of the wrapped schema\<close>

lemma parse_optional_present:
  "data \<noteq> JUndefined \<Longrightarrow> parse (optional s) data = p_parse s [] data"
  by (simp add: parse_def optional_def p_parseWithRefinements.simps runRefinements_def
      split: sum.splits)

lemma parse_nullable_present:
  "data \<noteq> JNull \<Longrightarrow> parse (nullable s) data = p_parse s [] data"
  by (simp add: parse_def nullable_def p_parseWithRefinements.simps runRefinements_def
      split: sum.splits)

text \<open>
  Claim C1 says that \<^verbatim>\<open>S.optional()\<close> and \<^verbatim>\<open>S.nullable()\<close> delegate to the full
  pipeline of \<^verbatim>\<open>S\<close>, so that a value failing a refinement of \<^verbatim>\<open>S\<close> is rejected.
  \<^verbatim>\<open>VOptional._parse\<close> and \<^verbatim>\<open>VNullable._parse\<close> call \<^verbatim>\<open>inner['_parse']\<close>, not
  \<^verbatim>\<open>_parseWithRefinements\<close> as \<^verbatim>\<open>VObject._parse\<close> does for its fields: the
  refinements of the inner schema never run. With \<^verbatim>\<open>S = string().refine(() => false, "A")\<close>
  the input \<^verbatim>\<open>"x"\<close> passes the structural check of \<^verbatim>\<open>S\<close>, is rejected by
  \<^verbatim>\<open>S\<close> and is accepted by both wrappers.
\<close>

theorem C1_wrappers_skip_inner_refinements:
  "p_parse refined_string [] (JStr ''x'') = Inr (JStr ''x'')
   \<and> parse refined_string (JStr ''x'') =
     Inl (ValidationError
       [\<lparr>path = [], message = ''A'', expected = ''refinement to pass'', received = ''string''\<rparr>])
   \<and> parse (optional refined_string) (JStr ''x'') = Inr (JStr ''x'')
   \<and> parse (nullable refined_string) (JStr ''x'') = Inr (JStr ''x'')"
  by (simp add: parse_def optional_def nullable_def refined_string_def always_false_def
      p_parseWithRefinements.simps runRefinements_def)

subsection \<open>Arrays\<close>

lemma array_map_refine:
  "array_map (refine element check msg) pth i items = array_map element pth i items"
  by (induction items arbitrary: i) (simp_all add: p_parse_refine split: sum.splits)

text \<open>
  Claim C2 says that every element of an array is validated with the full pipeline of
  the element schema, so that an element failing a refinement makes the array parse
  fail. The callback of \<^verbatim>\<open>VArray._parse\<close> calls \<^verbatim>\<open>this.element['_parse']\<close>: the
  refinements of the element schema never run. With
  \<^verbatim>\<open>E = number().refine(() => false, "A")\<close> the value \<^verbatim>\<open>1\<close> passes the
  structural check of \<^verbatim>\<open>E\<close> and is rejected by \<^verbatim>\<open>E\<close>, and \<^verbatim>\<open>[1]\<close> is accepted
  by \<^verbatim>\<open>array(E)\<close>.
\<close>

theorem C2_array_skips_element_refinements:
  "p_parse refined_number [] (JNum (Fin 1)) = Inr (JNum (Fin 1))
   \<and> parse refined_number (JNum (Fin 1)) =
     Inl (ValidationError
       [\<lparr>path = [], message = ''A'', expected = ''refinement to pass'', received = ''number''\<rparr>])
   \<and> parse (VArray refined_number []) (JArr [JNum (Fin 1)]) = Inr (JArr [JNum (Fin 1)])"
  by (simp add: parse_def refined_number_def always_false_def p_parseWithRefinements.simps
      runRefinements_def)

text \<open>
  The \<^verbatim>\<open>map\<close> of \<^verbatim>\<open>VArray._parse\<close> leaves at the first element whose parse throws,
  whatever follows it.
\<close>

lemma array_map_fail_fast:
  assumes "\<forall>j<length before. \<exists>v. p_parse element (pth @ [Idx (i + j)]) (before ! j) = Inr v"
    and "p_parse element (pth @ [Idx (i + length before)]) item = Inl e"
  shows "array_map element pth i (before @ item # rest) = Inl e"
  using assms
proof (induction before arbitrary: i)
  case Nil
  then show ?case by simp
next
  case (Cons x xs)
  from Cons.prems(1) obtain v where v: "p_parse element (pth @ [Idx i]) x = Inr v"
    by fastforce
  have "\<forall>j<length xs. \<exists>v. p_parse element (pth @ [Idx (Suc i + j)]) (xs ! j) = Inr v"
    using Cons.prems(1) by fastforce
  moreover have "p_parse element (pth @ [Idx (Suc i + length xs)]) item = Inl e"
    using Cons.prems(2) by simp
  ultimately have "array_map element pth (Suc i) (xs @ item # rest) = Inl e"
    by (rule Cons.IH)
  with v show ?case by simp
qed

text \<open>
  Claim C5: array validation is fail-fast. When the elements \<open>before\<close> all pass the
  element schema and \<open>item\<close>, at index \<open>length before\<close>, makes it throw \<open>e\<close>, the
  array parse throws exactly \<open>e\<close>, whatever the elements \<open>rest\<close> after it are: they
  are not checked.
\<close>

theorem C5_array_fail_fast:
  assumes "\<forall>j<length before. \<exists>v. p_parse element [Idx j] (before ! j) = Inr v"
    and "p_parse element [Idx (length before)] item = Inl e"
  shows "parse (VArray element rs) (JArr (before @ item # rest)) = Inl e"
proof -
  have "array_map element [] 0 (before @ item # rest) = Inl e"
    using assms by (intro array_map_fail_fast) simp_all
  then show ?thesis
    by (simp add: parse_def p_parseWithRefinements.simps)
qed

text \<open>
  \<^verbatim>\<open>array(number()).parse([1, "x", 2])\<close> throws the single issue of the element at
  index 1, with path \<^verbatim>\<open>[1]\<close>; index 2 is not reported.
\<close>

theorem C5_array_fail_fast_witness:
  "parse (VArray (VNumber []) []) (JArr [JNum (Fin 1), JStr ''x'', JNum (Fin 2)]) =
     Inl (makeError [Idx 1] ''number'' ''string'' (JStr ''x''))
   \<and> map path (issues (makeError [Idx 1] ''number'' ''string'' (JStr ''x''))) = [[Idx 1]]"
  using C5_array_fail_fast [of "[JNum (Fin 1)]" "VNumber []" "JStr ''x''"
      "makeError [Idx 1] ''number'' ''string'' (JStr ''x'')" "[]" "[JNum (Fin 2)]"]
  by (simp add: makeError_def)

subsection \<open>The factories of the namespace\<close>

text \<open>
  Claim C3 says that the public surface has an \<^verbatim>\<open>enum\<close> factory. The exported
  \<^verbatim>\<open>validator\<close> object has ten members and none is named \<^verbatim>\<open>enum\<close>, so
  \<^verbatim>\<open>validator.enum\<close> is \<^verbatim>\<open>undefined\<close> and the call \<^verbatim>\<open>validator.enum(User)\<close> of the
  test suite builds no schema.
\<close>

theorem C3_validator_has_no_enum:
  "map_of validator ''enum'' = None
   \<and> map fst validator =
       [''string'', ''number'', ''boolean'', ''date'', ''array'', ''literal'', ''union'',
        ''object'', ''infer'', ''ValidationError'']"
  by (simp add: validator_def)

subsection \<open>Unions\<close>

lemma union_loop_all_fail:
  assumes "\<forall>opt\<in>set options. p_parse opt pth data = Inl (ValidationError (f opt))"
  shows "union_loop options pth data errors = Inl (ValidationError (errors @ concat (map f options)))"
  using assms by (induction options arbitrary: errors) auto

text \<open>
  Claim C4: when every member of a union fails on the input, the union throws a
  \<^verbatim>\<open>ValidationError\<close> whose issues are the members' issues concatenated in member
  order. A member is entered through its \<^verbatim>\<open>_parse\<close> (\<^verbatim>\<open>option['_parse'](path, data)\<close>),
  and it fails when that call throws a \<^verbatim>\<open>ValidationError\<close>; \<open>f opt\<close> names the issues
  member \<open>opt\<close> throws. Both \<^verbatim>\<open>parse\<close> and \<^verbatim>\<open>safeParse\<close> report the concatenation.
\<close>

theorem C4_union_concatenates_issues:
  assumes "\<forall>opt\<in>set options. p_parse opt [] data = Inl (ValidationError (f opt))"
  shows "parse (VUnion options rs) data = Inl (ValidationError (concat (map f options)))
         \<and> safeParse (VUnion options rs) data =
             Inr (Failure (ValidationError (concat (map f options))))"
proof -
  have "p_parse (VUnion options rs) [] data = Inl (ValidationError (concat (map f options)))"
    using union_loop_all_fail [OF assms, of "[]"] by simp
  then show ?thesis
    by (simp add: safeParse_def safeParse_try_def parse_def p_parseWithRefinements.simps)
qed

text \<open>
  \<^verbatim>\<open>union([literal("a"), literal("b")]).safeParse("c")\<close> is the failure branch with
  two issues, the one of \<^verbatim>\<open>literal("a")\<close> and then the one of \<^verbatim>\<open>literal("b")\<close>.
\<close>

theorem C4_union_concatenates_issues_witness:
  "safeParse literal_a_or_b (JStr ''c'') =
     Inr (Failure (ValidationError (literal_issue ''a'' (JStr ''c'') @ literal_issue ''b'' (JStr ''c''))))
   \<and> length (literal_issue ''a'' (JStr ''c'') @ literal_issue ''b'' (JStr ''c'')) = 2
   \<and> map expected (literal_issue ''a'' (JStr ''c'') @ literal_issue ''b'' (JStr ''c''))
       = [''literal '' @ quote ''a'', ''literal '' @ quote ''b'']"
proof -
  let ?f = "\<lambda>opt. case opt of VLiteral (LStr s) rs \<Rightarrow> literal_issue s (JStr ''c'') | _ \<Rightarrow> []"
  have "\<forall>opt\<in>set [VLiteral (LStr ''a'') [], VLiteral (LStr ''b'') []].
          p_parse opt [] (JStr ''c'') = Inl (ValidationError (?f opt))"
    by (simp add: literal_issue_def makeError_def template_def)
  from C4_union_concatenates_issues [OF this, of "[]"] show ?thesis
    by (simp add: literal_a_or_b_def literal_issue_def makeError_def)
qed

subsection \<open>\<^verbatim>\<open>safeParse\<close>\<close>

lemma safeParse_parse:
  "safeParse s data =
     (case parse s data of
        Inr v \<Rightarrow> Inr (Success v)
      | Inl (ValidationError iss) \<Rightarrow> Inr (Failure (ValidationError iss))
      | Inl (OtherError m) \<Rightarrow> Inl (OtherError m))"
  by (simp add: safeParse_def safeParse_try_def parse_def p_parseWithRefinements.simps
      split: sum.splits thrown.splits)

text \<open>
  Claim C7: \<^verbatim>\<open>safeParse\<close> never throws a \<^verbatim>\<open>ValidationError\<close>; when the pipeline
  (\<^verbatim>\<open>parse\<close>) throws a \<^verbatim>\<open>ValidationError\<close>, \<^verbatim>\<open>safeParse\<close> returns the failure
  branch carrying that error; when the pipeline throws anything else, \<^verbatim>\<open>safeParse\<close>
  throws the same exception; and a successful pipeline gives the success branch.
\<close>

theorem C7_safeParse_catches_validation_errors_only:
  "(\<forall>iss'. safeParse s data \<noteq> Inl (ValidationError iss'))
   \<and> (parse s data = Inl (ValidationError iss) \<longrightarrow>
        safeParse s data = Inr (Failure (ValidationError iss)))
   \<and> (parse s data = Inl (OtherError m) \<longrightarrow> safeParse s data = Inl (OtherError m))
   \<and> (parse s data = Inr v \<longrightarrow> safeParse s data = Inr (Success v))"
  by (simp add: safeParse_parse split: sum.splits thrown.splits)

text \<open>
  The three branches at concrete inputs: a number given to \<^verbatim>\<open>string()\<close>, a string
  given to a string schema whose refinement throws, and a string given to
  \<^verbatim>\<open>string()\<close>.
\<close>

theorem C7_safeParse_witness:
  "safeParse (VString []) (JNum (Fin 1)) =
     Inr (Failure (makeError [] ''string'' ''number'' (JNum (Fin 1))))
   \<and> safeParse (refine (VString []) always_throws ''A'') (JStr ''x'') = Inl (OtherError ''boom'')
   \<and> safeParse (VString []) (JStr ''x'') = Inr (Success (JStr ''x''))"
proof -
  let ?iss = "issues (makeError [] ''string'' ''number'' (JNum (Fin 1)))"
  have a: "parse (VString []) (JNum (Fin 1)) = Inl (ValidationError ?iss)"
    by (simp add: parse_def p_parseWithRefinements.simps makeError_def)
  have b: "parse (refine (VString []) always_throws ''A'') (JStr ''x'') = Inl (OtherError ''boom'')"
    by (simp add: parse_def p_parseWithRefinements.simps runRefinements_def always_throws_def)
  have c: "parse (VString []) (JStr ''x'') = Inr (JStr ''x'')"
    by (simp add: parse_def p_parseWithRefinements.simps runRefinements_def)
  show ?thesis
    using C7_safeParse_catches_validation_errors_only
            [of "VString []" "JNum (Fin 1)" ?iss "''boom''" "JStr ''x''"]
          C7_safeParse_catches_validation_errors_only
            [of "refine (VString []) always_throws ''A''" "JStr ''x''" ?iss "''boom''" "JStr ''x''"]
          C7_safeParse_catches_validation_errors_only
            [of "VString []" "JStr ''x''" ?iss "''boom''" "JStr ''x''"]
          a b c
    by (simp add: makeError_def)
qed

subsection \<open>Refinements\<close>

lemma run_checks_first_false:
  assumes "\<forall>r\<in>set passed. fst r v = Inr True" and "check v = Inr False"
  shows "run_checks (passed @ (check, msg) # later) v pth =
           Inl (ValidationError
             [\<lparr>path = pth, message = msg, expected = ''refinement to pass'', received = typeof v\<rparr>])"
  using assms by (induction passed) auto

text \<open>
  Claim C8: \<^verbatim>\<open>refine\<close> appends to the list of refinements and leaves the structural
  parse as it is; when the structural parse throws, that exception is the result
  whatever the refinements are; when it succeeds with \<open>v\<close>, the refinements run in
  list order on \<open>v\<close>, and the first whose predicate answers false (those before it
  answering true) throws a \<^verbatim>\<open>ValidationError\<close> with its message, whatever the
  refinements after it would do.
\<close>

theorem C8_refinements_in_order_first_failure:
  "refinements (refine s check msg) = refinements s @ [(check, msg)]
   \<and> p_parse (refine s check msg) pth data = p_parse s pth data
   \<and> (p_parse s pth data = Inl e \<longrightarrow> p_parseWithRefinements s pth data = Inl e)
   \<and> (p_parse s pth data = Inr v \<and> refinements s = passed @ (check', msg') # later
        \<and> (\<forall>r\<in>set passed. fst r v = Inr True) \<and> check' v = Inr False \<longrightarrow>
        p_parseWithRefinements s pth data =
          Inl (ValidationError
            [\<lparr>path = pth, message = msg', expected = ''refinement to pass'', received = typeof v\<rparr>]))"
  by (simp add: refinements_refine p_parse_refine p_parseWithRefinements.simps runRefinements_def
      run_checks_first_false)

text \<open>
  A string schema refined with an always-failing \<^verbatim>\<open>"A"\<close> and then an always-failing
  \<^verbatim>\<open>"B"\<close> throws the single issue \<^verbatim>\<open>"A"\<close>; so it does when the second predicate
  would throw; and a structural failure is reported although the refinement would
  throw.
\<close>

theorem C8_refinements_witness:
  "parse (refine (refine (VString []) always_false ''A'') always_false ''B'') (JStr ''x'') =
     Inl (ValidationError
       [\<lparr>path = [], message = ''A'', expected = ''refinement to pass'', received = ''string''\<rparr>])
   \<and> parse (refine (refine (VString []) always_false ''A'') always_throws ''B'') (JStr ''x'') =
     Inl (ValidationError
       [\<lparr>path = [], message = ''A'', expected = ''refinement to pass'', received = ''string''\<rparr>])
   \<and> parse (refine (VString []) always_throws ''B'') (JNum (Fin 1)) =
     Inl (makeError [] ''string'' ''number'' (JNum (Fin 1)))"
proof -
  let ?e = "makeError [] ''string'' ''number'' (JNum (Fin 1))"
  have a: "p_parseWithRefinements (refine (refine (VString []) always_false ''A'') always_false ''B'')
             [] (JStr ''x'') =
           Inl (ValidationError
             [\<lparr>path = [], message = ''A'', expected = ''refinement to pass'', received = ''string''\<rparr>])"
    using C8_refinements_in_order_first_failure
        [of "refine (refine (VString []) always_false ''A'') always_false ''B''"
        always_false "''C''" "[]" "JStr ''x''" ?e "JStr ''x''" "[]" always_false "''A''"
        "[(always_false, ''B'')]"]
    by (simp add: always_false_def)
  have b: "p_parseWithRefinements (refine (refine (VString []) always_false ''A'') always_throws ''B'')
             [] (JStr ''x'') =
           Inl (ValidationError
             [\<lparr>path = [], message = ''A'', expected = ''refinement to pass'', received = ''string''\<rparr>])"
    using C8_refinements_in_order_first_failure
        [of "refine (refine (VString []) always_false ''A'') always_throws ''B''"
        always_false "''C''" "[]" "JStr ''x''" ?e "JStr ''x''" "[]" always_false "''A''"
        "[(always_throws, ''B'')]"]
    by (simp add: always_false_def)
  have c: "p_parseWithRefinements (refine (VString []) always_throws ''B'') [] (JNum (Fin 1)) = Inl ?e"
    using C8_refinements_in_order_first_failure
        [of "refine (VString []) always_throws ''B''"
        always_false "''C''" "[]" "JNum (Fin 1)" ?e "JStr ''x''" "[]" always_false "''A''" "[]"]
    by simp
  from a b c show ?thesis by (simp add: parse_def)
qed

subsection \<open>Objects: decimal numerals and the properties of an array\<close>












subsection \<open>Objects: the loop over the declared fields\<close>

lemma object_loop_step:
  "object_loop ((key, sch) # rest) pth obj res =
     (case field_pipeline sch (pth @ [Key key]) (get_property obj key) of
        Inl e \<Rightarrow> Inl e
      | Inr v \<Rightarrow> object_loop rest pth obj (assign res key v))"
  by (cases "get_property obj key") (simp_all add: field_pipeline_def)

declare object_loop.simps(2) [simp del]
declare object_loop_step [simp]

lemma assign_other_key:
  "key \<noteq> ''__proto__'' \<Longrightarrow> assign (JObj p kvs) key v = JObj p (AList.update key v kvs)"
  by simp




lemma object_loop_keys:
  assumes "object_loop fs pth obj (JObj p kvs) = Inr out" and "distinct (map fst kvs)"
    and "''__proto__'' \<notin> set (map fst fs)"
  shows "\<exists>kvs'. out = JObj p kvs' \<and> distinct (map fst kvs')
           \<and> set (map fst kvs') = set (map fst kvs) \<union> set (map fst fs)"
  using assms
proof (induction fs arbitrary: kvs)
  case Nil
  then show ?case by auto
next
  case (Cons f fs)
  obtain key sch where f: "f = (key, sch)" by (cases f)
  have key: "key \<noteq> ''__proto__''" using Cons.prems(3) f by auto
  from Cons.prems(1) f key obtain v where
    loop: "object_loop fs pth obj (JObj p (AList.update key v kvs)) = Inr out"
    by (auto split: sum.splits)
  have "distinct (map fst (AList.update key v kvs))"
    using Cons.prems(2) by (simp add: distinct_update)
  moreover have "''__proto__'' \<notin> set (map fst fs)" using Cons.prems(3) by simp
  ultimately obtain kvs' where
    "out = JObj p kvs'" "distinct (map fst kvs')"
    "set (map fst kvs') = set (map fst (AList.update key v kvs)) \<union> set (map fst fs)"
    using Cons.IH [OF loop] by blast
  then show ?case using f by (auto simp: dom_update)
qed

text \<open>
  For a shape that does not declare the key \<^verbatim>\<open>__proto__\<close>: when the parse of the
  object schema succeeds, the output is an ordinary object whose keys are exactly the
  declared keys.
\<close>

lemma object_output_keys:
  assumes "parse (VObject shape rs) data = Inr out" and "''__proto__'' \<notin> set (map fst shape)"
  shows "\<exists>kvs. out = JObj ObjectPrototype kvs \<and> distinct (map fst kvs)
           \<and> set (map fst kvs) = set (map fst shape)"
proof -
  from assms(1) have "object_loop shape [] data (JObj ObjectPrototype []) = Inr out"
    by (auto simp: parse_def p_parseWithRefinements.simps split: sum.splits if_splits)
  from object_loop_keys [OF this _ assms(2)] show ?thesis by simp
qed

text \<open>
  Claim C6 says that the output of an object schema contains exactly the declared
  keys. The loop of \<^verbatim>\<open>VObject._parse\<close> stores every field with
  \<^verbatim>\<open>result[key] = ...\<close> on \<^verbatim>\<open>result = {}\<close>; for the declared key \<^verbatim>\<open>__proto__\<close> this
  assignment runs the setter inherited from \<^verbatim>\<open>Object.prototype\<close> and adds no
  property. With the shape \<^verbatim>\<open>{['__proto__']: number()}\<close> and the input
  \<^verbatim>\<open>JSON.parse('{"__proto__": 5}')\<close>, the field is read and validated (its pipeline
  returns \<^verbatim>\<open>5\<close>) and the parse returns \<^verbatim>\<open>{}\<close>, without the declared key.
\<close>

theorem C6_declared_proto_key_is_dropped:
  "get_property (JObj ObjectPrototype [(''__proto__'', JNum (Fin 5))]) ''__proto__'' = Value (JNum (Fin 5))
   \<and> p_parseWithRefinements (VNumber []) [Key ''__proto__''] (JNum (Fin 5)) = Inr (JNum (Fin 5))
   \<and> parse proto_shape (JObj ObjectPrototype [(''__proto__'', JNum (Fin 5))]) = Inr (JObj ObjectPrototype [])"
  by (simp add: proto_shape_def parse_def p_parseWithRefinements.simps runRefinements_def
      get_property_def is_object_or_null_def field_pipeline_def)

subsection \<open>Objects: the paths of the issues\<close>










subsection \<open>Objects given an array\<close>




subsection \<open>Idempotence\<close>





text \<open>A union that succeeds does so with a member, those before it having rejected the input.\<close>

lemma union_loop_member:
  assumes "union_loop options pth v errors = Inr w"
  shows "\<exists>i<length options. p_parse (options ! i) pth v = Inr w
           \<and> (\<forall>j<i. \<exists>iss. p_parse (options ! j) pth v = Inl (ValidationError iss))"
  using assms
proof (induction options arbitrary: errors)
  case Nil
  then show ?case by simp
next
  case (Cons opt options)
  show ?case
  proof (cases "p_parse opt pth v")
    case (Inr w')
    with Cons.prems have "p_parse ((opt # options) ! 0) pth v = Inr w" by simp
    then show ?thesis by (intro exI [of _ 0]) simp
  next
    case (Inl err)
    with Cons.prems obtain iss where
      err: "err = ValidationError iss" and "union_loop options pth v (errors @ iss) = Inr w"
      by (cases err) simp_all
    from Cons.IH [OF this(2)] obtain i where
      i: "i < length options" "p_parse (options ! i) pth v = Inr w"
      "\<forall>j<i. \<exists>iss. p_parse (options ! j) pth v = Inl (ValidationError iss)"
      by blast
    have "\<forall>j<Suc i. \<exists>iss. p_parse ((opt # options) ! j) pth v = Inl (ValidationError iss)"
    proof (intro allI impI)
      fix j assume "j < Suc i"
      then show "\<exists>iss. p_parse ((opt # options) ! j) pth v = Inl (ValidationError iss)"
        using i(3) Inl err by (cases j) auto
    qed
    with i(1,2) show ?thesis by (intro exI [of _ "Suc i"]) simp
  qed
qed


lemma strict_equal_value: "strict_equal v val \<Longrightarrow> literal_value val = v"
  by (induction v val rule: strict_equal.induct) simp_all




text \<open>
  The condition on the unions holds for every union of strings, numbers, booleans,
  dates and literals: such a schema returns its input.
\<close>

lemma union_loop_unchanged:
  assumes "\<And>opt w. opt \<in> set options \<Longrightarrow> p_parse opt pth v = Inr w \<Longrightarrow> w = v"
    and "union_loop options pth v errors = Inr w"
  shows "w = v"
proof -
  from union_loop_member [OF assms(2)] obtain i where
    "i < length options" "p_parse (options ! i) pth v = Inr w"
    by blast
  with assms(1) [of "options ! i" w] show ?thesis by simp
qed

lemma returns_input_unchanged:
  "returns_input s \<Longrightarrow> p_parse s pth v = Inr w \<Longrightarrow> w = v"
proof (induction s arbitrary: pth v w)
  case (VLiteral val rs)
  then show ?case by (auto split: if_splits dest: strict_equal_value)
next
  case (VUnion options rs)
  from VUnion.prems(2) have loop: "union_loop options pth v [] = Inr w" by simp
  show ?case
  proof (rule union_loop_unchanged [OF _ loop])
    fix opt w'
    assume "opt \<in> set options" "p_parse opt pth v = Inr w'"
    with VUnion.IH [of opt pth v w'] VUnion.prems(1) show "w' = v"
      by (simp add: list_all_iff)
  qed
next
  case (VDate rs)
  then show ?case by (auto split: if_splits jsval.splits option.splits)
qed (auto split: if_splits)

text \<open>
  A union whose members are strings, numbers, booleans, dates, literals, or wrappers
  and unions of these, is stable: it returns its input, which the members before the
  matching one have rejected.
\<close>

lemma returns_input_stable:
  assumes "list_all returns_input options"
  shows "first_match_stable options"
  unfolding first_match_stable_def
proof (intro allI impI, elim conjE)
  fix i pth v w j
  assume i: "i < length options"
    and before: "\<forall>j<i. \<exists>iss. p_parse (options ! j) pth v = Inl (ValidationError iss)"
    and w: "p_parse (options ! i) pth v = Inr w"
    and j: "j < i"
  have "returns_input (options ! i)" using assms i by (simp add: list_all_length)
  from returns_input_unchanged [OF this w] have "w = v" .
  with before j show "(\<exists>iss. p_parse (options ! j) pth w = Inl (ValidationError iss))
                  \<or> p_parse (options ! j) pth w = Inr w"
    by simp
qed

lemma returns_input_unions_stable: "returns_input s \<Longrightarrow> unions_stable s"
  by (induction s) (auto simp: list_all_iff intro: returns_input_stable)




end
